theory Spec2Isabelle
  imports Main "HOL-Library.Word" "HOL-Library.List_Lexorder" "HOL-Library.Multiset"
begin

section \<open>JavaScript strings and values\<close>

text \<open>
  A JavaScript string is a sequence of UTF-16 code units: \<open>length\<close> counts code units
  (this is what the \<open>min\<close>/\<open>max\<close> checks of the argument schema count), and the
  default \<open>Array.prototype.sort\<close> compares strings code unit by code unit, a proper
  prefix first. That is the lexicographic order of \<open>HOL-Library.List_Lexorder\<close> on
  lists of 16-bit words.
\<close>

type_synonym jsstring = "16 word list"

text \<open>An ASCII literal of the source, as code units.\<close>

definition lit :: "string \<Rightarrow> jsstring" where
  "lit s = map of_char s"

text \<open>The four emoji of the listing, as the surrogate pairs the source text denotes:
  U+1F4C5, U+1F3F7 U+FE0F, U+1F4DD and U+1F4CA.\<close>

definition emoji_calendar :: jsstring where
  "emoji_calendar = [0xD83D, 0xDCC5]"

definition emoji_tag :: jsstring where
  "emoji_tag = [0xD83C, 0xDFF7, 0xFE0F]"

definition emoji_note :: jsstring where
  "emoji_note = [0xD83D, 0xDCDD]"

definition emoji_chart :: jsstring where
  "emoji_chart = [0xD83D, 0xDCCA]"

text \<open>
  The values the program handles are what the HTTP client hands back as
  \<open>response.data\<close>: parsed JSON. \<open>JUndefined\<close> is the value of a property that is
  absent. A number is modelled as an integer (the JSON numbers without fraction or
  exponent, of magnitude below \<open>2^53\<close>); the program only tests numbers for truthiness
  and prints them. \<open>JObj\<close> holds the own properties of an object in the order
  \<open>Object.entries\<close> enumerates them, with distinct keys.
\<close>

datatype jsval =
    JUndefined
  | JNull
  | JBool bool
  | JNum int
  | JStr jsstring
  | JArr "jsval list"
  | JObj "(jsstring \<times> jsval) list"

datatype js_type = TUndefined | TObject | TBoolean | TNumber | TString

fun typeof :: "jsval \<Rightarrow> js_type" where
  "typeof JUndefined = TUndefined"
| "typeof JNull = TObject"
| "typeof (JBool _) = TBoolean"
| "typeof (JNum _) = TNumber"
| "typeof (JStr _) = TString"
| "typeof (JArr _) = TObject"
| "typeof (JObj _) = TObject"

text \<open>ToBoolean: what \<open>!v\<close>, \<open>v || w\<close>, \<open>v && w\<close> and \<open>if (v)\<close> test.\<close>

fun truthy :: "jsval \<Rightarrow> bool" where
  "truthy JUndefined = False"
| "truthy JNull = False"
| "truthy (JBool b) = b"
| "truthy (JNum n) = (n \<noteq> 0)"
| "truthy (JStr s) = (s \<noteq> [])"
| "truthy (JArr _) = True"
| "truthy (JObj _) = True"

definition js_or :: "jsval \<Rightarrow> jsval \<Rightarrow> jsval" where
  "js_or a b = (if truthy a then a else b)"

fun isArray :: "jsval \<Rightarrow> bool" where
  "isArray (JArr _) = True"
| "isArray _ = False"

text \<open>
  Reading a property by name. The handlers read the names \<open>journal?\<close>,
  \<open>originalName\<close>, \<open>name\<close>, \<open>tags\<close> and \<open>properties\<close> only, and only from
  values of type \<open>object\<close> that are not null; an array has none of them.
\<close>

fun get_prop :: "jsval \<Rightarrow> jsstring \<Rightarrow> jsval" where
  "get_prop (JObj kvs) k = (case map_of kvs k of None \<Rightarrow> JUndefined | Some v \<Rightarrow> v)"
| "get_prop _ k = JUndefined"

subsection \<open>Errors\<close>

text \<open>Every thrown value of the program is an error object; only its \<open>message\<close> is read.\<close>

datatype js_error = Error jsstring | TypeError jsstring | AxiosError jsstring

fun message :: "js_error \<Rightarrow> jsstring" where
  "message (Error m) = m"
| "message (TypeError m) = m"
| "message (AxiosError m) = m"

subsection \<open>Conversion to string\<close>

fun digit_char :: "nat \<Rightarrow> 16 word" where
  "digit_char d = of_nat (48 + d)"

fun nat_to_string :: "nat \<Rightarrow> jsstring" where
  "nat_to_string n = (if n < 10 then [digit_char n]
     else nat_to_string (n div 10) @ [digit_char (n mod 10)])"

declare nat_to_string.simps [simp del]

definition num_to_string :: "int \<Rightarrow> jsstring" where
  "num_to_string i = (if i < 0 then lit ''-'' @ nat_to_string (nat (- i)) else nat_to_string (nat i))"

text \<open>
  ToString, as a template literal \<open>`${v}`\<close> applies it, and \<open>Array.prototype.join\<close>.
  An array prints as its elements joined by a comma; \<open>join\<close> prints \<open>null\<close> and
  \<open>undefined\<close> elements as the empty string. A plain object prints as
  \<open>[object Object]\<close>, unless it has an own property \<open>toString\<close>: parsed JSON never
  holds a function, so then neither \<open>toString\<close> nor \<open>valueOf\<close> yields a primitive
  and the conversion throws a TypeError.
\<close>

fun to_string :: "jsval \<Rightarrow> js_error + jsstring"
  and js_join :: "jsstring \<Rightarrow> jsval list \<Rightarrow> js_error + jsstring"
  and join_from :: "jsstring \<Rightarrow> jsstring \<Rightarrow> jsval list \<Rightarrow> js_error + jsstring"
  and join_elem :: "jsval \<Rightarrow> js_error + jsstring" where
  "to_string JUndefined = Inr (lit ''undefined'')"
| "to_string JNull = Inr (lit ''null'')"
| "to_string (JBool b) = Inr (if b then lit ''true'' else lit ''false'')"
| "to_string (JNum n) = Inr (num_to_string n)"
| "to_string (JStr s) = Inr s"
| "to_string (JArr xs) = js_join (lit '','') xs"
| "to_string (JObj kvs) =
     (if lit ''toString'' \<in> set (map fst kvs)
      then Inl (TypeError (lit ''Cannot convert object to primitive value''))
      else Inr (lit ''[object Object]''))"
| "js_join sep [] = Inr []"
| "js_join sep (x # xs) = (case join_elem x of Inl e \<Rightarrow> Inl e
     | Inr s \<Rightarrow> join_from sep s xs)"
| "join_from sep acc [] = Inr acc"
| "join_from sep acc (x # xs) = (case join_elem x of Inl e \<Rightarrow> Inl e
     | Inr s \<Rightarrow> join_from sep (acc @ sep @ s) xs)"
| "join_elem x = (if x = JUndefined \<or> x = JNull then Inr [] else to_string x)"

text \<open>\<open>xs.join(sep)\<close> on an array of strings never throws.\<close>

fun join_strings :: "jsstring \<Rightarrow> jsstring list \<Rightarrow> jsstring" where
  "join_strings sep [] = []"
| "join_strings sep [s] = s"
| "join_strings sep (s # t # ss) = s @ sep @ join_strings sep (t # ss)"

subsection \<open>\<open>JSON.stringify\<close>\<close>

text \<open>
  The log messages print values with \<open>JSON.stringify\<close>. A string is quoted with the
  escapes of the standard: the two-character escapes, \<open>\uXXXX\<close> (lower-case hex) for
  the other control characters and for a surrogate that is not part of a pair.
\<close>

fun hex_digit :: "nat \<Rightarrow> 16 word" where
  "hex_digit d = (if d < 10 then of_nat (48 + d) else of_nat (87 + d))"

definition unicode_escape :: "16 word \<Rightarrow> jsstring" where
  "unicode_escape c = [0x5C, 0x75,
     hex_digit (unat c div 4096 mod 16), hex_digit (unat c div 256 mod 16),
     hex_digit (unat c div 16 mod 16), hex_digit (unat c mod 16)]"

definition escape_unit :: "16 word \<Rightarrow> jsstring" where
  "escape_unit c =
     (if c = 0x08 then [0x5C, 0x62]
      else if c = 0x09 then [0x5C, 0x74]
      else if c = 0x0A then [0x5C, 0x6E]
      else if c = 0x0C then [0x5C, 0x66]
      else if c = 0x0D then [0x5C, 0x72]
      else if c = 0x22 then [0x5C, 0x22]
      else if c = 0x5C then [0x5C, 0x5C]
      else if c < 0x20 then unicode_escape c
      else [c])"

definition is_high_surrogate :: "16 word \<Rightarrow> bool" where
  "is_high_surrogate c = (0xD800 \<le> c \<and> c \<le> 0xDBFF)"

definition is_low_surrogate :: "16 word \<Rightarrow> bool" where
  "is_low_surrogate c = (0xDC00 \<le> c \<and> c \<le> 0xDFFF)"

fun quote_body :: "jsstring \<Rightarrow> jsstring" where
  "quote_body [] = []"
| "quote_body [c] =
     (if is_high_surrogate c \<or> is_low_surrogate c then unicode_escape c else escape_unit c)"
| "quote_body (c # d # cs) =
     (if is_high_surrogate c \<and> is_low_surrogate d then c # d # quote_body cs
      else if is_high_surrogate c \<or> is_low_surrogate c then unicode_escape c @ quote_body (d # cs)
      else escape_unit c @ quote_body (d # cs))"

definition json_quote :: "jsstring \<Rightarrow> jsstring" where
  "json_quote s = [0x22] @ quote_body s @ [0x22]"

text \<open>
  \<open>None\<close> is the result \<open>undefined\<close>, which \<open>JSON.stringify\<close> gives for
  \<open>undefined\<close> itself. Inside an array \<open>undefined\<close> prints as \<open>null\<close>; a property
  whose value is \<open>undefined\<close> is left out.
\<close>

fun json_stringify :: "jsval \<Rightarrow> jsstring option"
  and stringify_elems :: "jsval list \<Rightarrow> jsstring list"
  and stringify_members :: "(jsstring \<times> jsval) list \<Rightarrow> jsstring list" where
  "json_stringify JUndefined = None"
| "json_stringify JNull = Some (lit ''null'')"
| "json_stringify (JBool b) = Some (if b then lit ''true'' else lit ''false'')"
| "json_stringify (JNum n) = Some (num_to_string n)"
| "json_stringify (JStr s) = Some (json_quote s)"
| "json_stringify (JArr xs) =
     Some (lit ''['' @ join_strings (lit '','') (stringify_elems xs) @ lit '']'')"
| "json_stringify (JObj kvs) =
     Some (lit ''{'' @ join_strings (lit '','') (stringify_members kvs) @ lit ''}'')"
| "stringify_elems [] = []"
| "stringify_elems (x # xs) =
     (case json_stringify x of None \<Rightarrow> lit ''null'' | Some s \<Rightarrow> s) # stringify_elems xs"
| "stringify_members [] = []"
| "stringify_members ((k, v) # kvs) =
     (case json_stringify v of None \<Rightarrow> stringify_members kvs
      | Some s \<Rightarrow> (json_quote k @ lit '':'' @ s) # stringify_members kvs)"

text \<open>\<open>`${JSON.stringify(v)}`\<close>: the template literal prints \<open>undefined\<close> by name.\<close>

definition stringify_text :: "jsval \<Rightarrow> jsstring" where
  "stringify_text v = (case json_stringify v of None \<Rightarrow> lit ''undefined'' | Some s \<Rightarrow> s)"

section \<open>The world outside: the log file and the HTTP endpoint\<close>

text \<open>
  Both loggers append to the same file. A log line is modelled by its level and its
  message; the timestamp the format adds is not. The state of the world also records
  every request handed to \<open>axios.post\<close>, in order.
\<close>

datatype log_level = INFO | DEBUG | ERROR

datatype http_verb = GET | POST

record http_request =
  verb :: http_verb
  url :: jsstring
  data :: jsval
  headers :: "(jsstring \<times> jsstring) list"
  timeout :: nat

record http_response =
  status :: nat
  rdata :: jsval

record world =
  requests :: "http_request list"
  log :: "(log_level \<times> jsstring) list"

text \<open>
  The endpoint is a parameter: given the request, \<open>axios.post\<close> either resolves with
  a response or rejects (no connection, timeout, a status outside 2xx) with an error.
\<close>

type_synonym endpoint = "http_request \<Rightarrow> js_error + http_response"

definition logger_info :: "jsstring \<Rightarrow> world \<Rightarrow> world" where
  "logger_info msg w = w\<lparr>log := log w @ [(INFO, msg)]\<rparr>"

definition logger_debug :: "jsstring \<Rightarrow> world \<Rightarrow> world" where
  "logger_debug msg w = w\<lparr>log := log w @ [(DEBUG, msg)]\<rparr>"

definition logger_error :: "jsstring \<Rightarrow> world \<Rightarrow> world" where
  "logger_error msg w = w\<lparr>log := log w @ [(ERROR, msg)]\<rparr>"

definition axios_post ::
  "endpoint \<Rightarrow> jsstring \<Rightarrow> jsval \<Rightarrow> (jsstring \<times> jsstring) list \<Rightarrow> nat \<Rightarrow> world
     \<Rightarrow> (js_error + http_response) \<times> world" where
  "axios_post net u payload hs ms w =
     (let req = \<lparr>verb = POST, url = u, data = payload, headers = hs, timeout = ms\<rparr>
      in (net req, w\<lparr>requests := requests w @ [req]\<rparr>))"

section \<open>The API client (class \<open>LogSeq\<close>)\<close>

record LogSeq =
  apiKey :: jsstring
  host :: jsstring
  port :: nat

text \<open>The constructor's defaults, as \<open>new LogSeq(apiKey)\<close> uses them.\<close>

definition new_LogSeq :: "jsstring \<Rightarrow> LogSeq" where
  "new_LogSeq key = \<lparr>apiKey = key, host = lit ''127.0.0.1'', port = 12315\<rparr>"

definition getBaseUrl :: "LogSeq \<Rightarrow> world \<Rightarrow> jsstring \<times> world" where
  "getBaseUrl self w =
     (let u = lit ''http://'' @ host self @ lit '':'' @ nat_to_string (port self) @ lit ''/api''
      in (u, logger_debug (lit ''Base URL: '' @ u) w))"

definition getHeaders :: "LogSeq \<Rightarrow> (jsstring \<times> jsstring) list" where
  "getHeaders self =
     [(lit ''Authorization'', lit ''Bearer '' @ apiKey self),
      (lit ''Content-Type'', lit ''application/json'')]"

definition createPage_payload :: "jsstring \<Rightarrow> jsstring \<Rightarrow> jsval" where
  "createPage_payload title content =
     JObj [(lit ''method'', JStr (lit ''logseq.Editor.insertBlock'')),
           (lit ''args'', JArr [JStr title, JStr content,
                                JObj [(lit ''isPageBlock'', JBool True)]])]"

definition createPage ::
  "endpoint \<Rightarrow> LogSeq \<Rightarrow> jsstring \<Rightarrow> jsstring \<Rightarrow> world \<Rightarrow> (js_error + jsval) \<times> world" where
  "createPage net self title content w0 =
     (let (u, w1) = getBaseUrl self w0;
          w2 = logger_info (lit ''Creating page '' @ [0x27] @ title @ [0x27]) w1;
          payload = createPage_payload title content;
          w3 = logger_debug (lit ''Request payload: '' @ stringify_text payload) w2
      in case axios_post net u payload (getHeaders self) 6000 w3 of
           (Inr response, w4) \<Rightarrow>
             (Inr (rdata response),
              logger_debug (lit ''Response status: '' @ nat_to_string (status response)) w4)
         | (Inl error, w4) \<Rightarrow>
             (Inl error, logger_error (lit ''Error creating page: '' @ message error) w4))"

definition listPages_payload :: jsval where
  "listPages_payload = JObj [(lit ''method'', JStr (lit ''logseq.Editor.getAllPages''))]"

definition listPages :: "endpoint \<Rightarrow> LogSeq \<Rightarrow> world \<Rightarrow> (js_error + jsval) \<times> world" where
  "listPages net self w0 =
     (let (u, w1) = getBaseUrl self w0;
          w2 = logger_info (lit ''Listing all pages'') w1;
          payload = listPages_payload;
          w3 = logger_debug (lit ''Request payload: '' @ stringify_text payload) w2
      in case axios_post net u payload (getHeaders self) 6000 w3 of
           (Inr response, w4) \<Rightarrow>
             (Inr (rdata response),
              logger_debug (lit ''Response status: '' @ nat_to_string (status response)) w4)
         | (Inl error, w4) \<Rightarrow>
             (Inl error, logger_error (lit ''Error listing pages: '' @ message error) w4))"

section \<open>The tool server\<close>

text \<open>
  What a tool handler returns: \<open>{isError, content: [{type: "text", text}]}\<close>. A
  successful result has no \<open>isError\<close> property (\<open>None\<close>); \<open>content_text\<close> is
  the text of the one content item.
\<close>

record tool_result =
  isError :: "bool option"
  content_text :: jsstring

subsection \<open>\<open>create_page\<close>\<close>

definition create_page ::
  "endpoint \<Rightarrow> LogSeq \<Rightarrow> jsstring \<Rightarrow> jsstring \<Rightarrow> world \<Rightarrow> tool_result \<times> world" where
  "create_page net logseqClient title content w0 =
     (let w1 = logger_info (lit ''Creating page with title: '' @ title) w0
      in case createPage net logseqClient title content w1 of
           (Inr result, w2) \<Rightarrow>
             (let w3 = logger_info (lit ''Successfully created page'') w2;
                  w4 = logger_debug (lit ''API response: '' @ stringify_text result) w3
              in (\<lparr>isError = None,
                   content_text = lit ''Successfully created page '' @ [0x27] @ title @ [0x27]\<rparr>, w4))
         | (Inl error, w2) \<Rightarrow>
             (let w3 = logger_error (lit ''Failed to create page: '' @ message error) w2
              in (\<lparr>isError = Some True,
                   content_text = lit ''Failed to create page: '' @ message error\<rparr>, w3)))"

text \<open>
  The argument schema of \<open>create_page\<close>: the messages of the length checks that fail,
  title first. Both checks of a string are run; at most one of them can fail.
\<close>

definition string_min_max :: "nat \<Rightarrow> jsstring \<Rightarrow> nat \<Rightarrow> jsstring \<Rightarrow> jsstring \<Rightarrow> jsstring list" where
  "string_min_max lo lo_msg hi hi_msg s =
     (if length s < lo then [lo_msg] else []) @ (if length s > hi then [hi_msg] else [])"

definition create_page_schema :: "jsstring \<Rightarrow> jsstring \<Rightarrow> jsstring list" where
  "create_page_schema title content =
     string_min_max 1 (lit ''Title cannot be empty'') 1000 (lit ''Title is too long'') title
     @ string_min_max 1 (lit ''Content cannot be empty'') 1000000 (lit ''Content is too long'')
         content"

text \<open>
  Modelled from the spec: the dispatch of a tool call, which belongs to the tool-server
  framework and is not part of the sources. The arguments are checked against the
  schema before the handler runs, and a failed check is answered by a structured tool
  error without running the handler. How the framework words that error is left open
  (\<open>render\<close>).
\<close>

definition call_create_page ::
  "(jsstring list \<Rightarrow> jsstring) \<Rightarrow> endpoint \<Rightarrow> LogSeq \<Rightarrow> jsstring \<Rightarrow> jsstring \<Rightarrow> world
     \<Rightarrow> tool_result \<times> world" where
  "call_create_page render net logseqClient title content w =
     (case create_page_schema title content of
        [] \<Rightarrow> create_page net logseqClient title content w
      | issue # issues \<Rightarrow> (\<lparr>isError = Some True, content_text = render (issue # issues)\<rparr>, w))"

subsection \<open>\<open>list_pages\<close>\<close>

record counters =
  pagesInfo :: "jsstring list"
  totalPages :: nat
  journalPages :: nat

definition and_then :: "'e + 'a \<Rightarrow> ('a \<Rightarrow> 'e + 'b) \<Rightarrow> 'e + 'b" where
  "and_then m f = (case m of Inl e \<Rightarrow> Inl e | Inr x \<Rightarrow> f x)"

text \<open>\<open>page.originalName || page.name || '<unknown>'\<close>\<close>

definition page_name :: "jsval \<Rightarrow> jsval" where
  "page_name page =
     js_or (get_prop page (lit ''originalName''))
       (js_or (get_prop page (lit ''name'')) (JStr (lit ''<unknown>'')))"

text \<open>\<open>Array.isArray(page.tags) ? page.tags : []\<close>, as the array of its elements.\<close>

definition page_tags :: "jsval \<Rightarrow> jsval list" where
  "page_tags page =
     (case get_prop page (lit ''tags'') of JArr xs \<Rightarrow> xs | _ \<Rightarrow> [])"

text \<open>\<open>page.properties && typeof page.properties === 'object' ? page.properties : {}\<close>\<close>

definition page_properties :: "jsval \<Rightarrow> jsval" where
  "page_properties page =
     (let p = get_prop page (lit ''properties'')
      in if truthy p \<and> typeof p = TObject then p else JObj [])"

text \<open>
  \<open>Object.entries\<close> of the resolved properties, which are an object or an array: the
  entries of an array are its elements under their indices. \<open>Object.keys\<close> has as
  many elements.
\<close>

fun entries :: "jsval \<Rightarrow> (jsstring \<times> jsval) list" where
  "entries (JObj kvs) = kvs"
| "entries (JArr xs) = zip (map nat_to_string [0..<length xs]) xs"
| "entries _ = []"

text \<open>\<open>.map(([k, v]) => `${k}: ${v}`)\<close>\<close>

fun format_props :: "(jsstring \<times> jsval) list \<Rightarrow> js_error + jsstring list" where
  "format_props [] = Inr []"
| "format_props ((k, v) # kvs) =
     and_then (to_string v) (\<lambda>s.
     and_then (format_props kvs) (\<lambda>ss. Inr ((k @ lit '': '' @ s) # ss)))"

text \<open>The line of a page that is displayed (\<open>infoParts.join(" ")\<close>).\<close>

definition page_line :: "jsval \<Rightarrow> jsval \<Rightarrow> js_error + jsstring" where
  "page_line isJournal page =
     (let name = page_name page; tags = page_tags page; properties = page_properties page
      in and_then (to_string name) (\<lambda>n.
         let parts0 = [lit ''- '' @ n];
             parts1 = (if truthy isJournal then parts0 @ [emoji_calendar] else parts0)
         in and_then
              (if length tags > 0
               then and_then (js_join (lit '', '') tags)
                      (\<lambda>t. Inr (parts1 @ [emoji_tag @ lit '' '' @ t]))
               else Inr parts1) (\<lambda>parts2.
            and_then
              (if length (entries properties) > 0
               then and_then (format_props (entries properties))
                      (\<lambda>ps. Inr (parts2 @ [emoji_note @ lit '' '' @ join_strings (lit '', '') ps]))
               else Inr parts2) (\<lambda>parts3.
            Inr (join_strings (lit '' '') parts3)))))"

text \<open>The test that skips an element: \<open>!page || typeof page !== 'object'\<close>.\<close>

definition invalid_page :: "jsval \<Rightarrow> bool" where
  "invalid_page page = (\<not> truthy page \<or> typeof page \<noteq> TObject)"

text \<open>\<open>const isJournal = page['journal?'] || false\<close>\<close>

definition page_isJournal :: "jsval \<Rightarrow> jsval" where
  "page_isJournal page = js_or (get_prop page (lit ''journal?'')) (JBool False)"

text \<open>The body of the loop over the elements of the response.\<close>

definition process_page ::
  "bool \<Rightarrow> jsval \<Rightarrow> counters \<Rightarrow> world \<Rightarrow> (js_error + counters) \<times> world" where
  "process_page include_journals page c w =
     (if invalid_page page
      then (Inr c,
            logger_error (lit ''Invalid page object in response: '' @ stringify_text page) w)
      else
        let isJournal = page_isJournal page
        in if truthy isJournal \<and> \<not> include_journals
           then (Inr (c\<lparr>journalPages := journalPages c + 1\<rparr>), w)
           else (case page_line isJournal page of
                   Inl e \<Rightarrow> (Inl e, w)
                 | Inr l \<Rightarrow>
                     (Inr (c\<lparr>pagesInfo := pagesInfo c @ [l],
                             totalPages := totalPages c + 1\<rparr>), w)))"

fun process_pages ::
  "bool \<Rightarrow> jsval list \<Rightarrow> counters \<Rightarrow> world \<Rightarrow> (js_error + counters) \<times> world" where
  "process_pages include_journals [] c w = (Inr c, w)"
| "process_pages include_journals (page # pages) c w =
     (case process_page include_journals page c w of
        (Inl e, w') \<Rightarrow> (Inl e, w')
      | (Inr c', w') \<Rightarrow> process_pages include_journals pages c' w')"

text \<open>The lines of the response, before they are joined by a line feed.\<close>

definition summary :: "bool \<Rightarrow> counters \<Rightarrow> jsstring list" where
  "summary include_journals c =
     [lit ''LogSeq Pages:'', []] @ sort (pagesInfo c) @
     [[], emoji_chart @ lit '' Statistics:'',
      lit ''- Total pages shown: '' @ nat_to_string (totalPages c),
      (if include_journals
       then lit ''- Journal pages: '' @ nat_to_string (journalPages c)
       else lit ''- Journal pages: '' @ nat_to_string (journalPages c) @ lit '' (hidden)'')]"

text \<open>The \<open>catch\<close> clause of the handler.\<close>

definition list_pages_failed :: "js_error \<Rightarrow> world \<Rightarrow> tool_result \<times> world" where
  "list_pages_failed error w =
     (\<lparr>isError = Some True, content_text = lit ''Failed to list pages: '' @ message error\<rparr>,
      logger_error (lit ''Failed to list pages: '' @ message error) w)"

text \<open>
  The handler. Its argument \<open>include_journals\<close> is the boolean the schema yields
  (\<open>false\<close> when the caller gives none).
\<close>

definition list_pages :: "endpoint \<Rightarrow> LogSeq \<Rightarrow> bool \<Rightarrow> world \<Rightarrow> tool_result \<times> world" where
  "list_pages net logseqClient include_journals w0 =
     (let w1 = logger_info (lit ''Listing pages'') w0
      in case listPages net logseqClient w1 of
           (Inl error, w2) \<Rightarrow> list_pages_failed error w2
         | (Inr result, w2) \<Rightarrow>
             (let w3 = logger_debug (lit ''Raw API response: '' @ stringify_text result) w2
              in case result of
                   JArr pages \<Rightarrow>
                     (case process_pages include_journals pages
                             \<lparr>pagesInfo = [], totalPages = 0, journalPages = 0\<rparr> w3 of
                        (Inl error, w4) \<Rightarrow> list_pages_failed error w4
                      | (Inr c, w4) \<Rightarrow>
                          (\<lparr>isError = None,
                            content_text = join_strings [0x0A] (summary include_journals c)\<rparr>,
                           logger_info (lit ''Found '' @ nat_to_string (totalPages c) @ lit '' pages''
                             @ (if include_journals then [] else lit '' (excluding journals)'')) w4))
                 | _ \<Rightarrow>
                     list_pages_failed
                       (Error (lit ''Invalid response from LogSeq API: Expected an array of pages''))
                       w3))"

section \<open>Notions the properties are stated with\<close>

text \<open>\<open>String.prototype.includes\<close>: the needle occurs somewhere in the text.\<close>

fun js_includes :: "jsstring \<Rightarrow> jsstring \<Rightarrow> bool" where
  "js_includes [] needle = (needle = [])"
| "js_includes (c # cs) needle =
     (take (length needle) (c # cs) = needle \<or> js_includes cs needle)"

text \<open>A structured record: a JSON object, as opposed to a sequence, a scalar or null.\<close>

fun is_record :: "jsval \<Rightarrow> bool" where
  "is_record (JObj _) = True"
| "is_record _ = False"

text \<open>A scalar: a string, a number, a boolean, null or an absent value.\<close>

fun is_scalar :: "jsval \<Rightarrow> bool" where
  "is_scalar (JArr _) = False"
| "is_scalar (JObj _) = False"
| "is_scalar _ = True"

text \<open>
  Which elements of the response the loop displays, and which it counts as hidden
  journal pages.
\<close>

definition displayed :: "bool \<Rightarrow> jsval \<Rightarrow> bool" where
  "displayed include_journals page =
     (\<not> invalid_page page \<and> (include_journals \<or> \<not> truthy (page_isJournal page)))"

definition hidden :: "bool \<Rightarrow> jsval \<Rightarrow> bool" where
  "hidden include_journals page =
     (\<not> invalid_page page \<and> truthy (page_isJournal page) \<and> \<not> include_journals)"

definition invalid_entry :: "jsval \<Rightarrow> log_level \<times> jsstring" where
  "invalid_entry page = (ERROR, lit ''Invalid page object in response: '' @ stringify_text page)"

text \<open>Endpoints, a client and a world to run the handlers on.\<close>

definition endpoint_ok :: "jsval \<Rightarrow> endpoint" where
  "endpoint_ok v req = Inr \<lparr>status = 200, rdata = v\<rparr>"

definition endpoint_down :: "jsstring \<Rightarrow> endpoint" where
  "endpoint_down msg req = Inl (AxiosError msg)"

definition client0 :: LogSeq where
  "client0 = new_LogSeq (lit ''secret'')"

definition idle :: world where
  "idle = \<lparr>requests = [], log = []\<rparr>"

text \<open>Three pages, the second of them a journal page.\<close>

definition three_pages :: "jsval list" where
  "three_pages =
     [JObj [(lit ''name'', JStr (lit ''Beta''))],
      JObj [(lit ''name'', JStr (lit ''2024-01-01'')), (lit ''journal?'', JBool True)],
      JObj [(lit ''name'', JStr (lit ''Alpha''))]]"

text \<open>Two pages, one of them a journal page, around an element that is not a record.\<close>

definition mixed_pages :: "jsval list" where
  "mixed_pages =
     [JObj [(lit ''name'', JStr (lit ''Alpha''))],
      JNum 42,
      JObj [(lit ''name'', JStr (lit ''2024-01-01'')), (lit ''journal?'', JBool True)]]"

text \<open>A page whose \<open>properties\<close> field is a sequence, not a mapping.\<close>

definition page_with_listed_properties :: jsval where
  "page_with_listed_properties =
     JObj [(lit ''name'', JStr (lit ''Alpha'')), (lit ''properties'', JArr [JStr (lit ''x'')])]"

text \<open>Two pages, the name of the second being the name of the first followed by a
  tab character.\<close>

definition tab_pages :: "jsval list" where
  "tab_pages =
     [JObj [(lit ''name'', JStr (lit ''A'')), (lit ''tags'', JArr [JStr (lit ''x'')])],
      JObj [(lit ''name'', JStr (lit ''A'' @ [0x09]))]]"

section \<open>Properties of the API client and of \<open>create_page\<close>\<close>

lemma requests_logger [simp]:
  "requests (logger_info m w) = requests w"
  "requests (logger_debug m w) = requests w"
  "requests (logger_error m w) = requests w"
  by (simp_all add: logger_info_def logger_debug_def logger_error_def)

lemma log_logger [simp]:
  "log (logger_info m w) = log w @ [(INFO, m)]"
  "log (logger_debug m w) = log w @ [(DEBUG, m)]"
  "log (logger_error m w) = log w @ [(ERROR, m)]"
  by (simp_all add: logger_info_def logger_debug_def logger_error_def)

text \<open>What the client returns depends on the answer of the endpoint only.\<close>

lemma createPage_fst:
  "fst (createPage net self title content w) =
     (case net \<lparr>verb = POST,
         url = lit ''http://'' @ host self @ lit '':'' @ nat_to_string (port self) @ lit ''/api'',
         data = createPage_payload title content, headers = getHeaders self, timeout = 6000\<rparr> of
        Inl e \<Rightarrow> Inl e | Inr response \<Rightarrow> Inr (rdata response))"
  by (simp add: createPage_def getBaseUrl_def axios_post_def Let_def split: sum.splits)

lemma listPages_fst:
  "fst (listPages net self w) =
     (case net \<lparr>verb = POST,
         url = lit ''http://'' @ host self @ lit '':'' @ nat_to_string (port self) @ lit ''/api'',
         data = listPages_payload, headers = getHeaders self, timeout = 6000\<rparr> of
        Inl e \<Rightarrow> Inl e | Inr response \<Rightarrow> Inr (rdata response))"
  by (simp add: listPages_def getBaseUrl_def axios_post_def Let_def split: sum.splits)

text \<open>The schema accepts exactly the titles of 1 to 1000 code units with a content of
  1 to 1000000 code units.\<close>

lemma create_page_schema_accepts:
  "create_page_schema title content = [] \<longleftrightarrow>
     1 \<le> length title \<and> length title \<le> 1000 \<and> 1 \<le> length content \<and> length content \<le> 1000000"
  by (cases title; cases content) (auto simp add: create_page_schema_def string_min_max_def)

text \<open>
  C3. A call of \<open>create_page\<close> whose title has length 0 or more than 1000, or whose
  content has length 0 or more than 1000000, fails the schema of the source; the
  dispatch then answers with a tool error (\<open>isError: true\<close>) and leaves the world as
  it was: no request is issued (and nothing is logged).
\<close>

theorem create_page_rejects_out_of_bounds:
  assumes "length title = 0 \<or> 1000 < length title \<or> length content = 0 \<or> 1000000 < length content"
  shows "create_page_schema title content \<noteq> [] \<and>
         isError (fst (call_create_page render net logseqClient title content w)) = Some True \<and>
         snd (call_create_page render net logseqClient title content w) = w"
proof -
  from assms have "create_page_schema title content \<noteq> []"
    by (auto simp add: create_page_schema_def string_min_max_def)
  then show ?thesis
    by (cases "create_page_schema title content") (simp_all add: call_create_page_def)
qed

theorem create_page_rejects_out_of_bounds_witness:
  "isError (fst (call_create_page (join_strings (lit ''; '')) (endpoint_ok JNull) client0
             [] (lit ''hello'') idle)) = Some True \<and>
   requests (snd (call_create_page (join_strings (lit ''; '')) (endpoint_ok JNull) client0
             [] (lit ''hello'') idle)) = [] \<and>
   isError (fst (call_create_page (join_strings (lit ''; '')) (endpoint_ok JNull) client0
             (lit ''Inbox'') (replicate 1000001 0x61) idle)) = Some True \<and>
   requests (snd (call_create_page (join_strings (lit ''; '')) (endpoint_ok JNull) client0
             (lit ''Inbox'') (replicate 1000001 0x61) idle)) = []"
  using create_page_rejects_out_of_bounds
          [of "[]" "lit ''hello''" "join_strings (lit ''; '')" "endpoint_ok JNull" client0 idle]
        create_page_rejects_out_of_bounds
          [of "lit ''Inbox''" "replicate 1000001 0x61" "join_strings (lit ''; '')"
              "endpoint_ok JNull" client0 idle]
  by (simp add: idle_def)

text \<open>
  C4. The handler of \<open>create_page\<close> (which the dispatch runs on every valid input;
  the statement holds for every title and content): if the call of the API client
  succeeds, the result is not an error and its text is
  \<open>Successfully created page '<title>'\<close>; if the call fails, the result has
  \<open>isError: true\<close> and the text \<open>Failed to create page: <message>\<close>, with the message
  of the error the client raised.
\<close>

theorem create_page_result:
  "(fst (createPage net logseqClient title content
           (logger_info (lit ''Creating page with title: '' @ title) w)) = Inr result \<longrightarrow>
      fst (create_page net logseqClient title content w) =
        \<lparr>isError = None,
         content_text = lit ''Successfully created page '' @ [0x27] @ title @ [0x27]\<rparr>) \<and>
   (fst (createPage net logseqClient title content
           (logger_info (lit ''Creating page with title: '' @ title) w)) = Inl error \<longrightarrow>
      fst (create_page net logseqClient title content w) =
        \<lparr>isError = Some True,
         content_text = lit ''Failed to create page: '' @ message error\<rparr>)"
  by (auto simp add: create_page_def Let_def split: prod.splits sum.splits)

theorem create_page_result_witness:
  "fst (create_page (endpoint_ok JNull) client0 (lit ''Inbox'') (lit ''hello'') idle) =
     \<lparr>isError = None,
      content_text = lit ''Successfully created page '' @ [0x27] @ lit ''Inbox'' @ [0x27]\<rparr> \<and>
   fst (create_page (endpoint_down (lit ''connect ECONNREFUSED'')) client0
          (lit ''Inbox'') (lit ''hello'') idle) =
     \<lparr>isError = Some True,
      content_text = lit ''Failed to create page: connect ECONNREFUSED''\<rparr>"
  using create_page_result
          [of "endpoint_ok JNull" client0 "lit ''Inbox''" "lit ''hello''" idle JNull]
        create_page_result
          [of "endpoint_down (lit ''connect ECONNREFUSED'')" client0 "lit ''Inbox''"
              "lit ''hello''" idle _ "AxiosError (lit ''connect ECONNREFUSED'')"]
  by (simp add: createPage_fst endpoint_ok_def endpoint_down_def lit_def)

text \<open>
  C5, as stated, fails: the method of the envelope is not \<open>insertBlock\<close>. The request
  that \<open>createPage\<close> issues for the title \<open>T\<close> and the content \<open>C\<close> does not carry the
  envelope \<open>{method: "insertBlock", args: ["T", "C", {isPageBlock: true}]}\<close>.
\<close>

theorem createPage_method_counterexample:
  "data (last (requests (snd (createPage (endpoint_ok JNull) client0 (lit ''T'') (lit ''C'') idle))))
     \<noteq> JObj [(lit ''method'', JStr (lit ''insertBlock'')),
              (lit ''args'', JArr [JStr (lit ''T''), JStr (lit ''C''),
                                   JObj [(lit ''isPageBlock'', JBool True)]])]"
  by (simp add: createPage_def getBaseUrl_def axios_post_def getHeaders_def
      createPage_payload_def Let_def endpoint_ok_def lit_def)

text \<open>
  C5, amended. For every title and content (within the bounds or not), \<open>createPage\<close>
  issues exactly one request, whatever the endpoint answers: a POST to
  \<open>http://{host}:{port}/api\<close> carrying the envelope
  \<open>{method: "logseq.Editor.insertBlock", args: [title, content, {isPageBlock: true}]}\<close>,
  with the headers \<open>Authorization: Bearer <token>\<close> and
  \<open>Content-Type: application/json\<close> and a timeout of 6000 milliseconds.
\<close>

theorem createPage_request:
  "requests (snd (createPage net self title content w)) =
     requests w @
     [\<lparr>verb = POST,
       url = lit ''http://'' @ host self @ lit '':'' @ nat_to_string (port self) @ lit ''/api'',
       data = JObj [(lit ''method'', JStr (lit ''logseq.Editor.insertBlock'')),
                    (lit ''args'', JArr [JStr title, JStr content,
                                         JObj [(lit ''isPageBlock'', JBool True)]])],
       headers = [(lit ''Authorization'', lit ''Bearer '' @ apiKey self),
                  (lit ''Content-Type'', lit ''application/json'')],
       timeout = 6000\<rparr>]"
  by (simp add: createPage_def getBaseUrl_def axios_post_def getHeaders_def
      createPage_payload_def Let_def split: sum.splits)

section \<open>Properties of \<open>list_pages\<close>\<close>

text \<open>
  Every element of the response is skipped as invalid, counted as a hidden journal
  page, or displayed, and exactly one of the three.
\<close>

lemma page_cases: "invalid_page p \<or> hidden inc p \<or> displayed inc p"
  by (auto simp add: hidden_def displayed_def)

lemma page_cases_excl:
  "invalid_page p \<Longrightarrow> \<not> hidden inc p \<and> \<not> displayed inc p"
  "hidden inc p \<Longrightarrow> \<not> invalid_page p \<and> \<not> displayed inc p"
  "displayed inc p \<Longrightarrow> \<not> invalid_page p \<and> \<not> hidden inc p"
  by (auto simp add: hidden_def displayed_def)

lemma process_page_invalid:
  "invalid_page page \<Longrightarrow>
     process_page inc page c w = (Inr c, w\<lparr>log := log w @ [invalid_entry page]\<rparr>)"
  by (simp add: process_page_def invalid_entry_def logger_error_def)

lemma process_page_hidden:
  "hidden inc page \<Longrightarrow>
     process_page inc page c w = (Inr (c\<lparr>journalPages := journalPages c + 1\<rparr>), w)"
  by (simp add: process_page_def hidden_def)

lemma process_page_displayed:
  "displayed inc page \<Longrightarrow>
     process_page inc page c w =
       (case page_line (page_isJournal page) page of
          Inl e \<Rightarrow> (Inl e, w)
        | Inr l \<Rightarrow> (Inr (c\<lparr>pagesInfo := pagesInfo c @ [l], totalPages := totalPages c + 1\<rparr>), w))"
  by (auto simp add: process_page_def displayed_def Let_def)

text \<open>
  The loop, when every displayed page prints: the lines of the displayed pages in the
  order of the response, the two counters, and one log entry for each skipped element.
\<close>

lemma process_pages_spec:
  assumes "map (\<lambda>p. page_line (page_isJournal p) p) (filter (displayed inc) pages) = map Inr ls"
  shows "process_pages inc pages c w =
     (Inr \<lparr>pagesInfo = pagesInfo c @ ls, totalPages = totalPages c + length ls,
           journalPages = journalPages c + length (filter (hidden inc) pages)\<rparr>,
      w\<lparr>log := log w @ map invalid_entry (filter invalid_page pages)\<rparr>)"
  using assms
proof (induction pages arbitrary: c w ls)
  case Nil
  then show ?case by simp
next
  case (Cons p pages)
  consider (inv) "invalid_page p" | (hid) "hidden inc p" | (dis) "displayed inc p"
    using page_cases by blast
  then show ?case
  proof cases
    case inv
    then have no: "\<not> hidden inc p" "\<not> displayed inc p"
      by (simp_all add: page_cases_excl(1))
    with Cons.prems have "map (\<lambda>p. page_line (page_isJournal p) p) (filter (displayed inc) pages) = map Inr ls"
      by simp
    from Cons.IH [OF this] inv no show ?thesis
      by (simp add: process_page_invalid)
  next
    case hid
    then have no: "\<not> invalid_page p" "\<not> displayed inc p"
      by (simp_all add: page_cases_excl(2))
    with Cons.prems have "map (\<lambda>p. page_line (page_isJournal p) p) (filter (displayed inc) pages) = map Inr ls"
      by simp
    from Cons.IH [OF this] hid no show ?thesis
      by (simp add: process_page_hidden)
  next
    case dis
    then have no: "\<not> invalid_page p" "\<not> hidden inc p"
      by (simp_all add: page_cases_excl(3))
    from dis Cons.prems obtain l ls' where ls: "ls = l # ls'"
      and l: "page_line (page_isJournal p) p = Inr l"
      and rest: "map (\<lambda>p. page_line (page_isJournal p) p) (filter (displayed inc) pages) = map Inr ls'"
      by (cases ls) auto
    from Cons.IH [OF rest] dis no l ls show ?thesis
      by (simp add: process_page_displayed)
  qed
qed

lemma list_pages_success:
  assumes "fst (listPages net client (logger_info (lit ''Listing pages'') w)) = Inr (JArr pages)"
    and "map (\<lambda>p. page_line (page_isJournal p) p) (filter (displayed inc) pages) = map Inr ls"
  shows "fst (list_pages net client inc w) =
     \<lparr>isError = None,
      content_text = join_strings [0x0A]
        (summary inc \<lparr>pagesInfo = ls, totalPages = length ls,
                      journalPages = length (filter (hidden inc) pages)\<rparr>)\<rparr>"
  using assms(1)
  by (cases "listPages net client (logger_info (lit ''Listing pages'') w)")
     (simp add: list_pages_def Let_def process_pages_spec [OF assms(2)])

lemma list_pages_log:
  assumes "fst (listPages net client (logger_info (lit ''Listing pages'') w)) = Inr (JArr pages)"
    and "map (\<lambda>p. page_line (page_isJournal p) p) (filter (displayed inc) pages) = map Inr ls"
  shows "log (snd (list_pages net client inc w)) =
     log (snd (listPages net client (logger_info (lit ''Listing pages'') w))) @
     [(DEBUG, lit ''Raw API response: '' @ stringify_text (JArr pages))] @
     map invalid_entry (filter invalid_page pages) @
     [(INFO, lit ''Found '' @ nat_to_string (length ls) @ lit '' pages''
             @ (if inc then [] else lit '' (excluding journals)''))]"
  using assms(1)
  by (cases "listPages net client (logger_info (lit ''Listing pages'') w)")
     (simp add: list_pages_def Let_def process_pages_spec [OF assms(2)])

lemma truthy_page_isJournal:
  "truthy (page_isJournal page) = truthy (get_prop page (lit ''journal?''))"
  by (simp add: page_isJournal_def js_or_def)

lemma is_record_valid: "is_record p \<Longrightarrow> \<not> invalid_page p"
  by (cases p) (simp_all add: invalid_page_def)

lemma invalid_page_iff: "\<not> isArray p \<Longrightarrow> invalid_page p \<longleftrightarrow> \<not> is_record p"
  by (cases p) (simp_all add: invalid_page_def)

text \<open>
  Otherwise (some displayed page does not print) the loop ends with the error thrown,
  and the handler answers with a tool error.
\<close>

lemma process_pages_throws:
  assumes "\<nexists>ls. map (\<lambda>p. page_line (page_isJournal p) p) (filter (displayed inc) pages) = map Inr ls"
  shows "\<exists>e w'. process_pages inc pages c w = (Inl e, w')"
  using assms
proof (induction pages arbitrary: c w)
  case Nil
  then show ?case by simp
next
  case (Cons p pages)
  consider (inv) "invalid_page p" | (hid) "hidden inc p" | (dis) "displayed inc p"
    using page_cases by blast
  then show ?case
  proof cases
    case inv
    then have no: "\<not> hidden inc p" "\<not> displayed inc p"
      by (simp_all add: page_cases_excl(1))
    with Cons.prems have "\<nexists>ls. map (\<lambda>p. page_line (page_isJournal p) p) (filter (displayed inc) pages) = map Inr ls"
      by simp
    from Cons.IH [OF this] inv show ?thesis
      by (simp add: process_page_invalid)
  next
    case hid
    then have no: "\<not> invalid_page p" "\<not> displayed inc p"
      by (simp_all add: page_cases_excl(2))
    with Cons.prems have "\<nexists>ls. map (\<lambda>p. page_line (page_isJournal p) p) (filter (displayed inc) pages) = map Inr ls"
      by simp
    from Cons.IH [OF this] hid show ?thesis
      by (simp add: process_page_hidden)
  next
    case dis
    show ?thesis
    proof (cases "page_line (page_isJournal p) p")
      case (Inl e)
      with dis show ?thesis by (simp add: process_page_displayed)
    next
      case (Inr l)
      have "\<nexists>ls. map (\<lambda>p. page_line (page_isJournal p) p) (filter (displayed inc) pages) = map Inr ls"
      proof
        assume "\<exists>ls. map (\<lambda>p. page_line (page_isJournal p) p) (filter (displayed inc) pages) = map Inr ls"
        then obtain ls where "map (\<lambda>p. page_line (page_isJournal p) p) (filter (displayed inc) pages) = map Inr ls" ..
        with dis Inr have "map (\<lambda>p. page_line (page_isJournal p) p) (filter (displayed inc) (p # pages)) = map Inr (l # ls)"
          by simp
        with Cons.prems show False by blast
      qed
      from Cons.IH [OF this] dis Inr show ?thesis
        by (simp add: process_page_displayed)
    qed
  qed
qed

lemma list_pages_throws:
  assumes "fst (listPages net client (logger_info (lit ''Listing pages'') w)) = Inr (JArr pages)"
    and "\<nexists>ls. map (\<lambda>p. page_line (page_isJournal p) p) (filter (displayed inc) pages) = map Inr ls"
  shows "isError (fst (list_pages net client inc w)) = Some True"
proof -
  obtain w2 where w2: "listPages net client (logger_info (lit ''Listing pages'') w) = (Inr (JArr pages), w2)"
    using assms(1) by (cases "listPages net client (logger_info (lit ''Listing pages'') w)") simp
  obtain e w' where "process_pages inc pages \<lparr>pagesInfo = [], totalPages = 0, journalPages = 0\<rparr>
       (logger_debug (lit ''Raw API response: '' @ stringify_text (JArr pages)) w2) = (Inl e, w')"
    using process_pages_throws [OF assms(2)] by blast
  with w2 show ?thesis
    by (simp add: list_pages_def Let_def list_pages_failed_def)
qed

text \<open>The two other ways the handler fails: the response is not an array, or the
  client raised an error.\<close>

lemma list_pages_not_array:
  assumes "fst (listPages net client (logger_info (lit ''Listing pages'') w)) = Inr result"
    and "\<not> isArray result"
  shows "fst (list_pages net client inc w) =
     \<lparr>isError = Some True,
      content_text = lit ''Failed to list pages: Invalid response from LogSeq API: Expected an array of pages''\<rparr>"
  using assms
  by (cases "listPages net client (logger_info (lit ''Listing pages'') w)"; cases result)
     (simp_all add: list_pages_def Let_def list_pages_failed_def lit_def)

lemma list_pages_client_error:
  assumes "fst (listPages net client (logger_info (lit ''Listing pages'') w)) = Inl e"
  shows "fst (list_pages net client inc w) =
     \<lparr>isError = Some True, content_text = lit ''Failed to list pages: '' @ message e\<rparr>"
  using assms
  by (cases "listPages net client (logger_info (lit ''Listing pages'') w)")
     (simp_all add: list_pages_def Let_def list_pages_failed_def)

text \<open>
  A page prints whenever its name, its tags and the values of its properties are
  scalars: only an object among them can make a template literal throw.
\<close>

lemma to_string_scalar: "is_scalar v \<Longrightarrow> \<exists>s. to_string v = Inr s"
  by (cases v) simp_all

lemma join_elem_scalar: "is_scalar v \<Longrightarrow> \<exists>s. join_elem v = Inr s"
  using to_string_scalar [of v] by auto

lemma join_from_scalars:
  "\<forall>v\<in>set xs. is_scalar v \<Longrightarrow> \<exists>s. join_from sep acc xs = Inr s"
proof (induction xs arbitrary: acc)
  case Nil
  then show ?case by simp
next
  case (Cons x xs)
  then obtain s where "join_elem x = Inr s"
    using join_elem_scalar [of x] by auto
  with Cons show ?case by simp
qed

lemma js_join_scalars:
  "\<forall>v\<in>set xs. is_scalar v \<Longrightarrow> \<exists>s. js_join sep xs = Inr s"
proof (cases xs)
  case Nil
  then show ?thesis by simp
next
  case (Cons x xs')
  assume all: "\<forall>v\<in>set xs. is_scalar v"
  with Cons obtain s where "join_elem x = Inr s"
    using join_elem_scalar [of x] by auto
  with Cons all join_from_scalars [of xs' sep s] show ?thesis by simp
qed

lemma format_props_scalars:
  "\<forall>v\<in>set (map snd kvs). is_scalar v \<Longrightarrow> \<exists>ss. format_props kvs = Inr ss"
proof (induction kvs)
  case Nil
  then show ?case by simp
next
  case (Cons kv kvs)
  obtain k v where kv: "kv = (k, v)" by (cases kv)
  with Cons.prems obtain s where s: "to_string v = Inr s"
    using to_string_scalar [of v] by auto
  from Cons obtain ss where "format_props kvs = Inr ss" by auto
  with kv s show ?case by (simp add: and_then_def)
qed

lemma page_line_prints:
  assumes "is_scalar (page_name page)"
    and "\<forall>t\<in>set (page_tags page). is_scalar t"
    and "\<forall>v\<in>set (map snd (entries (page_properties page))). is_scalar v"
  shows "\<exists>l. page_line isJournal page = Inr l"
proof -
  obtain n where n: "to_string (page_name page) = Inr n"
    using to_string_scalar [OF assms(1)] by blast
  obtain t where t: "js_join (lit '', '') (page_tags page) = Inr t"
    using js_join_scalars [OF assms(2)] by blast
  obtain ps where ps: "format_props (entries (page_properties page)) = Inr ps"
    using format_props_scalars [OF assms(3)] by blast
  from n t ps show ?thesis
    by (simp add: page_line_def and_then_def Let_def)
qed

text \<open>Facts for running the handler on a concrete response.\<close>

lemmas page_eval =
  lit_def page_line_def page_name_def page_tags_def page_properties_def page_isJournal_def
  js_or_def and_then_def invalid_page_def displayed_def hidden_def

lemmas text_eval =
  lit_def summary_def emoji_calendar_def emoji_tag_def emoji_note_def emoji_chart_def
  nat_to_string.simps

lemma endpoint_ok_response:
  "fst (listPages (endpoint_ok result) client (logger_info (lit ''Listing pages'') w)) =
     Inr result"
  by (simp add: listPages_fst endpoint_ok_def)

lemma displayed_record:
  "is_record p \<Longrightarrow> displayed inc p = (inc \<or> \<not> truthy (get_prop p (lit ''journal?'')))"
  by (simp add: displayed_def is_record_valid truthy_page_isJournal)

lemma hidden_record:
  "is_record p \<Longrightarrow> hidden inc p = (truthy (get_prop p (lit ''journal?'')) \<and> \<not> inc)"
  by (simp add: hidden_def is_record_valid truthy_page_isJournal)

text \<open>
  C9. Whatever the endpoint answers, either the call fails as a whole (a tool error,
  which has no page lines), or the text is the header, the lines of the displayed
  pages, and the statistics, where the page lines are the composed lines themselves
  (prefix \<open>- \<close> and markers included) in ascending order of their code units: a
  sorted rearrangement of the lines in the order of the response.
\<close>

theorem list_pages_lines_sorted:
  "isError (fst (list_pages net client inc w)) = Some True \<or>
   (\<exists>pages ls.
      fst (listPages net client (logger_info (lit ''Listing pages'') w)) = Inr (JArr pages) \<and>
      map (\<lambda>p. page_line (page_isJournal p) p) (filter (displayed inc) pages) = map Inr ls \<and>
      content_text (fst (list_pages net client inc w)) =
        join_strings [0x0A]
          ([lit ''LogSeq Pages:'', []] @ sort ls @
           [[], emoji_chart @ lit '' Statistics:'',
            lit ''- Total pages shown: '' @ nat_to_string (length ls),
            lit ''- Journal pages: '' @ nat_to_string (length (filter (hidden inc) pages))
              @ (if inc then [] else lit '' (hidden)'')]) \<and>
      sorted (sort ls) \<and> mset (sort ls) = mset ls)"
proof (cases "fst (listPages net client (logger_info (lit ''Listing pages'') w))")
  case (Inl e)
  then show ?thesis by (simp add: list_pages_client_error)
next
  case (Inr result)
  show ?thesis
  proof (cases "isArray result")
    case False
    with Inr show ?thesis by (simp add: list_pages_not_array)
  next
    case True
    then obtain pages where result: "result = JArr pages" by (cases result) simp_all
    show ?thesis
    proof (cases "\<exists>ls. map (\<lambda>p. page_line (page_isJournal p) p) (filter (displayed inc) pages) = map Inr ls")
      case False
      with Inr result show ?thesis by (simp add: list_pages_throws)
    next
      case True
      then obtain ls where ls: "map (\<lambda>p. page_line (page_isJournal p) p) (filter (displayed inc) pages) = map Inr ls" ..
      from Inr result have "fst (listPages net client (logger_info (lit ''Listing pages'') w)) = Inr (JArr pages)"
        by simp
      from list_pages_success [OF this ls] Inr result ls show ?thesis
        by (auto simp add: summary_def)
    qed
  qed
qed

theorem list_pages_lines_sorted_witness:
  "isError (fst (list_pages (endpoint_ok (JArr three_pages)) client0 True idle)) \<noteq> Some True \<and>
   (\<exists>ls. content_text (fst (list_pages (endpoint_ok (JArr three_pages)) client0 True idle)) =
        join_strings [0x0A]
          ([lit ''LogSeq Pages:'', []] @ sort ls @
           [[], emoji_chart @ lit '' Statistics:'',
            lit ''- Total pages shown: '' @ nat_to_string (length ls),
            lit ''- Journal pages: '' @ nat_to_string (length (filter (hidden True) three_pages))]) \<and>
        sorted (sort ls) \<and> mset (sort ls) = mset ls)"
proof -
  have lines: "map (\<lambda>p. page_line (page_isJournal p) p) (filter (displayed True) three_pages) =
      map Inr [lit ''- Beta'', lit ''- 2024-01-01 '' @ emoji_calendar, lit ''- Alpha'']"
    by (simp add: three_pages_def page_eval)
  from list_pages_success [OF endpoint_ok_response lines, of client0 idle]
  have ok: "isError (fst (list_pages (endpoint_ok (JArr three_pages)) client0 True idle)) \<noteq> Some True"
    by simp
  with list_pages_lines_sorted [of "endpoint_ok (JArr three_pages)" client0 True idle]
  show ?thesis
    by (auto simp add: endpoint_ok_response)
qed

text \<open>
  C1 does not hold of the code. With \<open>include_journals = true\<close> and the three pages
  \<open>Beta\<close>, \<open>2024-01-01\<close> (a journal page) and \<open>Alpha\<close>, all three pages are listed
  and the label \<open>(hidden)\<close> is absent, but the journal-page count reported is 0, not
  1: the counter is incremented only where a journal page is hidden.
\<close>

theorem list_pages_include_journals_count:
  "fst (list_pages (endpoint_ok (JArr three_pages)) client0 True idle) =
     \<lparr>isError = None,
      content_text = join_strings [0x0A]
        [lit ''LogSeq Pages:'', [],
         lit ''- 2024-01-01 '' @ emoji_calendar, lit ''- Alpha'', lit ''- Beta'',
         [], emoji_chart @ lit '' Statistics:'',
         lit ''- Total pages shown: 3'', lit ''- Journal pages: 0'']\<rparr>"
proof -
  have lines: "map (\<lambda>p. page_line (page_isJournal p) p) (filter (displayed True) three_pages) =
      map Inr [lit ''- Beta'', lit ''- 2024-01-01 '' @ emoji_calendar, lit ''- Alpha'']"
    by (simp add: three_pages_def page_eval)
  have none: "filter (hidden True) three_pages = []"
    by (simp add: hidden_def)
  from list_pages_success [OF endpoint_ok_response lines, of client0 idle] none show ?thesis
    by (simp add: text_eval)
qed

text \<open>
  With \<open>include_journals = true\<close> no element is counted as a journal page, whatever
  the response: the count reported is always 0.
\<close>

lemma list_pages_include_reports_zero:
  assumes "fst (listPages net client (logger_info (lit ''Listing pages'') w)) = Inr (JArr pages)"
    and "map (\<lambda>p. page_line (page_isJournal p) p) (filter (displayed True) pages) = map Inr ls"
  shows "content_text (fst (list_pages net client True w)) =
           join_strings [0x0A]
             ([lit ''LogSeq Pages:'', []] @ sort ls @
              [[], emoji_chart @ lit '' Statistics:'',
               lit ''- Total pages shown: '' @ nat_to_string (length ls),
               lit ''- Journal pages: 0''])"
proof -
  have "filter (hidden True) pages = []"
    by (simp add: hidden_def)
  then show ?thesis
    using list_pages_success [OF assms] by (simp add: summary_def nat_to_string.simps lit_def)
qed

text \<open>
  C2. With \<open>include_journals = false\<close> and a response of three pages (records), of
  which exactly one is a journal page (its \<open>journal?\<close> is \<open>true\<close>, or any other truthy
  value; that of the two others is absent or falsy): the lines \<open>ls\<close> displayed are
  those of the two other pages, the loop ends with the journal-page counter at 1 and
  the shown-page counter at 2, and the statistics report \<open>Total pages shown: 2\<close> and
  \<open>Journal pages: 1 (hidden)\<close>. (That the two pages print is a hypothesis: a page
  whose name, tags and property values are scalars always does.)
\<close>

theorem list_pages_hides_journal:
  assumes resp: "fst (listPages net client (logger_info (lit ''Listing pages'') w)) = Inr (JArr pages)"
    and three: "length pages = 3"
    and records: "\<forall>p\<in>set pages. is_record p"
    and one: "length (filter (\<lambda>p. truthy (get_prop p (lit ''journal?''))) pages) = 1"
    and lines: "map (\<lambda>p. page_line (page_isJournal p) p)
                  (filter (\<lambda>p. \<not> truthy (get_prop p (lit ''journal?''))) pages) = map Inr ls"
  shows "fst (list_pages net client False w) =
           \<lparr>isError = None,
            content_text = join_strings [0x0A]
              ([lit ''LogSeq Pages:'', []] @ sort ls @
               [[], emoji_chart @ lit '' Statistics:'',
                lit ''- Total pages shown: 2'', lit ''- Journal pages: 1 (hidden)''])\<rparr> \<and>
         length ls = 2 \<and>
         process_pages False pages \<lparr>pagesInfo = [], totalPages = 0, journalPages = 0\<rparr> w' =
           (Inr \<lparr>pagesInfo = ls, totalPages = 2, journalPages = 1\<rparr>, w')"
proof -
  from records have dis: "filter (displayed False) pages =
      filter (\<lambda>p. \<not> truthy (get_prop p (lit ''journal?''))) pages"
    by (intro filter_cong) (simp_all add: displayed_record)
  from records have hid: "filter (hidden False) pages =
      filter (\<lambda>p. truthy (get_prop p (lit ''journal?''))) pages"
    by (intro filter_cong) (simp_all add: hidden_record)
  from records have inv: "filter invalid_page pages = []"
    by (simp add: filter_empty_conv is_record_valid)
  have "length (filter (\<lambda>p. \<not> truthy (get_prop p (lit ''journal?''))) pages) = 2"
    using sum_length_filter_compl [of "\<lambda>p. truthy (get_prop p (lit ''journal?''))" pages] three one
    by simp
  with arg_cong [where f = length, OF lines] have len: "length ls = 2"
    by simp
  from lines dis have lines': "map (\<lambda>p. page_line (page_isJournal p) p) (filter (displayed False) pages) = map Inr ls"
    by simp
  have res: "fst (list_pages net client False w) =
           \<lparr>isError = None,
            content_text = join_strings [0x0A]
              ([lit ''LogSeq Pages:'', []] @ sort ls @
               [[], emoji_chart @ lit '' Statistics:'',
                lit ''- Total pages shown: 2'', lit ''- Journal pages: 1 (hidden)''])\<rparr>"
    using list_pages_success [OF resp lines'] len hid one
    by (simp add: summary_def nat_to_string.simps lit_def)
  have loop: "process_pages False pages \<lparr>pagesInfo = [], totalPages = 0, journalPages = 0\<rparr> w' =
           (Inr \<lparr>pagesInfo = ls, totalPages = 2, journalPages = 1\<rparr>, w')"
    using process_pages_spec [OF lines'] len hid one inv by simp
  from res len loop show ?thesis by simp
qed

theorem list_pages_hides_journal_witness:
  "fst (list_pages (endpoint_ok (JArr three_pages)) client0 False idle) =
     \<lparr>isError = None,
      content_text = join_strings [0x0A]
        [lit ''LogSeq Pages:'', [], lit ''- Alpha'', lit ''- Beta'',
         [], emoji_chart @ lit '' Statistics:'',
         lit ''- Total pages shown: 2'', lit ''- Journal pages: 1 (hidden)'']\<rparr>"
proof -
  have lines: "map (\<lambda>p. page_line (page_isJournal p) p)
       (filter (\<lambda>p. \<not> truthy (get_prop p (lit ''journal?''))) three_pages) =
      map Inr [lit ''- Beta'', lit ''- Alpha'']"
    by (simp add: three_pages_def page_eval)
  have "length three_pages = 3" "\<forall>p\<in>set three_pages. is_record p"
    "length (filter (\<lambda>p. truthy (get_prop p (lit ''journal?''))) three_pages) = 1"
    by (simp_all add: three_pages_def lit_def)
  from list_pages_hides_journal [OF endpoint_ok_response this lines, of client0 idle]
  show ?thesis
    by (simp add: lit_def)
qed

text \<open>
  The order is that of the composed lines, not that of the names: the name \<open>A\<close> comes
  before the name \<open>A<tab>\<close>, but the line of \<open>A\<close> continues with a space and its tag
  marker and so comes after the line of \<open>A<tab>\<close>.
\<close>

lemma list_pages_orders_lines_not_names:
  "lit ''A'' < lit ''A'' @ [0x09] \<and>
   content_text (fst (list_pages (endpoint_ok (JArr tab_pages)) client0 False idle)) =
     join_strings [0x0A]
       [lit ''LogSeq Pages:'', [],
        lit ''- A'' @ [0x09], lit ''- A '' @ emoji_tag @ lit '' x'',
        [], emoji_chart @ lit '' Statistics:'',
        lit ''- Total pages shown: 2'', lit ''- Journal pages: 0 (hidden)'']"
proof -
  have lines: "map (\<lambda>p. page_line (page_isJournal p) p) (filter (displayed False) tab_pages) =
      map Inr [lit ''- A '' @ emoji_tag @ lit '' x'', lit ''- A'' @ [0x09]]"
    by (simp add: tab_pages_def page_eval)
  have none: "filter (hidden False) tab_pages = []"
    by (simp add: tab_pages_def page_eval)
  from list_pages_success [OF endpoint_ok_response lines, of client0 idle] none show ?thesis
    by (simp add: text_eval)
qed

text \<open>
  C6, as stated, fails: for the response \<open>null\<close> the text of the error result does not
  contain \<open>Invalid response: expected a sequence of pages\<close>.
\<close>

theorem list_pages_message_counterexample:
  "\<not> js_includes (content_text (fst (list_pages (endpoint_ok JNull) client0 False idle)))
       (lit ''Invalid response: expected a sequence of pages'')"
proof -
  have "content_text (fst (list_pages (endpoint_ok JNull) client0 False idle)) =
      lit ''Failed to list pages: Invalid response from LogSeq API: Expected an array of pages''"
    using list_pages_not_array [OF endpoint_ok_response [of JNull client0 idle], of False] by simp
  then show ?thesis
    by (simp add: lit_def)
qed

text \<open>
  C6, amended. For every response of the endpoint that is not an array (a single
  record, null, a scalar), \<open>list_pages\<close> returns an error result (\<open>isError: true\<close>)
  whose text is
  \<open>Failed to list pages: Invalid response from LogSeq API: Expected an array of pages\<close>,
  and logs that text as an error.
\<close>

theorem list_pages_rejects_non_sequence:
  assumes "fst (listPages net client (logger_info (lit ''Listing pages'') w)) = Inr result"
    and "\<not> isArray result"
  shows "fst (list_pages net client include_journals w) =
     \<lparr>isError = Some True,
      content_text =
        lit ''Failed to list pages: Invalid response from LogSeq API: Expected an array of pages''\<rparr> \<and>
     last (log (snd (list_pages net client include_journals w))) =
       (ERROR, lit ''Failed to list pages: Invalid response from LogSeq API: Expected an array of pages'')"
  using assms
  by (cases "listPages net client (logger_info (lit ''Listing pages'') w)"; cases result)
     (simp_all add: list_pages_def Let_def list_pages_failed_def lit_def)

theorem list_pages_rejects_non_sequence_witness:
  "fst (list_pages (endpoint_ok JNull) client0 False idle) =
     \<lparr>isError = Some True,
      content_text =
        lit ''Failed to list pages: Invalid response from LogSeq API: Expected an array of pages''\<rparr> \<and>
   fst (list_pages (endpoint_ok page_with_listed_properties) client0 True idle) =
     \<lparr>isError = Some True,
      content_text =
        lit ''Failed to list pages: Invalid response from LogSeq API: Expected an array of pages''\<rparr>"
  using list_pages_rejects_non_sequence
      [OF endpoint_ok_response [of JNull client0 idle], of False]
    list_pages_rejects_non_sequence
      [OF endpoint_ok_response [of page_with_listed_properties client0 idle], of True]
  by (simp add: page_with_listed_properties_def)

text \<open>
  C7, as stated, fails: with \<open>include_journals = false\<close>, for the response of a page, the
  number 42 and a journal page, two elements are records (valid pages), but the
  shown count is 1, since the journal page is hidden.
\<close>

theorem list_pages_shown_count_counterexample:
  "fst (list_pages (endpoint_ok (JArr mixed_pages)) client0 False idle) =
     \<lparr>isError = None,
      content_text = join_strings [0x0A]
        [lit ''LogSeq Pages:'', [], lit ''- Alpha'',
         [], emoji_chart @ lit '' Statistics:'',
         lit ''- Total pages shown: 1'', lit ''- Journal pages: 1 (hidden)'']\<rparr> \<and>
   length (filter is_record mixed_pages) = 2"
proof -
  have lines: "map (\<lambda>p. page_line (page_isJournal p) p) (filter (displayed False) mixed_pages) =
      map Inr [lit ''- Alpha'']"
    by (simp add: mixed_pages_def page_eval)
  have one: "length (filter (hidden False) mixed_pages) = 1"
    by (simp add: mixed_pages_def page_eval)
  from list_pages_success [OF endpoint_ok_response lines, of client0 idle] one show ?thesis
    by (simp add: text_eval mixed_pages_def)
qed

text \<open>
  C7, amended. For every response that is a sequence with no sequence among its
  elements, and whose displayed pages print (to the lines \<open>ls\<close>): \<open>list_pages\<close> returns
  a result that is not an error, listing the lines of the records that are not hidden
  journal pages; the shown count is the number of these records (all the records when
  \<open>include_journals\<close> is true, those that are not journal pages otherwise); and for every
  element that is not a record the log holds the error entry
  \<open>Invalid page object in response: <element as JSON>\<close>. The last line of the
  statistics, the journal-page count, is left open here.
\<close>

theorem list_pages_skips_malformed:
  assumes resp: "fst (listPages net client (logger_info (lit ''Listing pages'') w)) = Inr (JArr pages)"
    and flat: "\<forall>p\<in>set pages. \<not> isArray p"
    and lines: "map (\<lambda>p. page_line (page_isJournal p) p)
                  (filter (\<lambda>p. is_record p \<and>
                     (include_journals \<or> \<not> truthy (get_prop p (lit ''journal?'')))) pages) =
                map Inr ls"
  shows "isError (fst (list_pages net client include_journals w)) = None \<and>
         (\<exists>journal_line.
            content_text (fst (list_pages net client include_journals w)) =
              join_strings [0x0A]
                ([lit ''LogSeq Pages:'', []] @ sort ls @
                 [[], emoji_chart @ lit '' Statistics:'',
                  lit ''- Total pages shown: '' @
                    nat_to_string (length (filter (\<lambda>p. is_record p \<and>
                      (include_journals \<or> \<not> truthy (get_prop p (lit ''journal?'')))) pages)),
                  journal_line])) \<and>
         (\<forall>p\<in>set pages. \<not> is_record p \<longrightarrow>
            (ERROR, lit ''Invalid page object in response: '' @ stringify_text p)
              \<in> set (log (snd (list_pages net client include_journals w))))"
proof -
  from flat have dis: "filter (displayed include_journals) pages =
      filter (\<lambda>p. is_record p \<and>
        (include_journals \<or> \<not> truthy (get_prop p (lit ''journal?'')))) pages"
    by (intro filter_cong) (auto simp add: displayed_def invalid_page_iff truthy_page_isJournal)
  from flat have inv: "filter invalid_page pages = filter (\<lambda>p. \<not> is_record p) pages"
    by (intro filter_cong) (simp_all add: invalid_page_iff)
  from lines dis have lines':
    "map (\<lambda>p. page_line (page_isJournal p) p) (filter (displayed include_journals) pages) = map Inr ls"
    by simp
  from arg_cong [where f = length, OF lines]
  have len: "length ls = length (filter (\<lambda>p. is_record p \<and>
      (include_journals \<or> \<not> truthy (get_prop p (lit ''journal?'')))) pages)"
    by simp
  have ok: "isError (fst (list_pages net client include_journals w)) = None"
    using list_pages_success [OF resp lines'] by simp
  let ?c = "\<lparr>pagesInfo = ls, totalPages = length ls,
              journalPages = length (filter (hidden include_journals) pages)\<rparr>"
  have eq: "content_text (fst (list_pages net client include_journals w)) =
      join_strings [0x0A] (summary include_journals ?c)"
    using list_pages_success [OF resp lines'] by simp
  have "summary include_journals ?c =
      [lit ''LogSeq Pages:'', []] @ sort ls @
      [[], emoji_chart @ lit '' Statistics:'',
       lit ''- Total pages shown: '' @
         nat_to_string (length (filter (\<lambda>p. is_record p \<and>
           (include_journals \<or> \<not> truthy (get_prop p (lit ''journal?'')))) pages)),
       last (summary include_journals ?c)]"
    unfolding summary_def len by simp
  with eq have shown: "\<exists>journal_line.
            content_text (fst (list_pages net client include_journals w)) =
              join_strings [0x0A]
                ([lit ''LogSeq Pages:'', []] @ sort ls @
                 [[], emoji_chart @ lit '' Statistics:'',
                  lit ''- Total pages shown: '' @
                    nat_to_string (length (filter (\<lambda>p. is_record p \<and>
                      (include_journals \<or> \<not> truthy (get_prop p (lit ''journal?'')))) pages)),
                  journal_line])"
    by (intro exI [of _ "last (summary include_journals ?c)"]) (simp only:)
  have logged: "\<forall>p\<in>set pages. \<not> is_record p \<longrightarrow>
            (ERROR, lit ''Invalid page object in response: '' @ stringify_text p)
              \<in> set (log (snd (list_pages net client include_journals w)))"
    using list_pages_log [OF resp lines'] inv
    by (auto simp add: invalid_entry_def)
  from ok shown logged show ?thesis by blast
qed

theorem list_pages_skips_malformed_witness:
  "isError (fst (list_pages (endpoint_ok (JArr mixed_pages)) client0 True idle)) = None \<and>
   (\<exists>journal_line.
      content_text (fst (list_pages (endpoint_ok (JArr mixed_pages)) client0 True idle)) =
        join_strings [0x0A]
          [lit ''LogSeq Pages:'', [], lit ''- 2024-01-01 '' @ emoji_calendar, lit ''- Alpha'',
           [], emoji_chart @ lit '' Statistics:'', lit ''- Total pages shown: 2'',
           journal_line]) \<and>
   (ERROR, lit ''Invalid page object in response: 42'')
     \<in> set (log (snd (list_pages (endpoint_ok (JArr mixed_pages)) client0 True idle)))"
proof -
  have flat: "\<forall>p\<in>set mixed_pages. \<not> isArray p"
    by (simp add: mixed_pages_def)
  have lines: "map (\<lambda>p. page_line (page_isJournal p) p)
       (filter (\<lambda>p. is_record p \<and> (True \<or> \<not> truthy (get_prop p (lit ''journal?''))))
          mixed_pages) =
      map Inr [lit ''- Alpha'', lit ''- 2024-01-01 '' @ emoji_calendar]"
    by (simp add: mixed_pages_def page_eval)
  have entry: "stringify_text (JNum 42) = lit ''42''"
    by (simp add: stringify_text_def num_to_string_def nat_to_string.simps lit_def)
  have member: "JNum 42 \<in> set mixed_pages"
    by (simp add: mixed_pages_def)
  from list_pages_skips_malformed [OF endpoint_ok_response flat lines, of client0 idle]
    entry member
  show ?thesis
    by (auto simp add: mixed_pages_def text_eval)
qed

text \<open>
  C8 does not hold of the code for the properties. A \<open>properties\<close> field that is a
  sequence is not a mapping, but the test \<open>typeof page.properties === 'object'\<close> lets
  it pass: for the page \<open>{name: "Alpha", properties: ["x"]}\<close> the properties resolve
  to the sequence itself, and the line shows its element under its index.
\<close>

theorem page_properties_keeps_sequence:
  "page_properties page_with_listed_properties = JArr [JStr (lit ''x'')] \<and>
   page_line (page_isJournal page_with_listed_properties) page_with_listed_properties =
     Inr (lit ''- Alpha '' @ emoji_note @ lit '' 0: x'')"
  by (simp add: page_with_listed_properties_def page_eval nat_to_string.simps)

text \<open>
  The rest of C8 holds: the name is \<open>originalName\<close> if that is truthy, else \<open>name\<close> if
  that is truthy, else \<open><unknown>\<close>; the tags are the empty sequence unless the field
  is a sequence; the properties are the empty mapping when the field is absent, null
  or a scalar, and the field itself when it is a mapping.
\<close>

lemma page_name_resolution:
  "page_name page =
     (if truthy (get_prop page (lit ''originalName'')) then get_prop page (lit ''originalName'')
      else if truthy (get_prop page (lit ''name'')) then get_prop page (lit ''name'')
      else JStr (lit ''<unknown>''))"
  by (simp add: page_name_def js_or_def)

lemma page_tags_default:
  "\<not> isArray (get_prop page (lit ''tags'')) \<Longrightarrow> page_tags page = []"
  by (cases "get_prop page (lit ''tags'')") (simp_all add: page_tags_def)

lemma page_tags_sequence:
  "get_prop page (lit ''tags'') = JArr xs \<Longrightarrow> page_tags page = xs"
  by (simp add: page_tags_def)

lemma page_properties_default:
  "\<not> is_record (get_prop page (lit ''properties'')) \<Longrightarrow>
   \<not> isArray (get_prop page (lit ''properties'')) \<Longrightarrow> page_properties page = JObj []"
  by (cases "get_prop page (lit ''properties'')") (simp_all add: page_properties_def)

lemma page_properties_mapping:
  "is_record (get_prop page (lit ''properties'')) \<Longrightarrow>
     page_properties page = get_prop page (lit ''properties'')"
  by (cases "get_prop page (lit ''properties'')") (simp_all add: page_properties_def)

text \<open>
  C10. \<open>isJournal\<close> is truthy exactly when the \<open>journal?\<close> field is: not for an absent
  field, null, \<open>false\<close>, 0 or the empty string, and for every other value (a non-zero
  number, a non-empty string, \<open>true\<close>, an object, an array). An element that passes the
  validity test is hidden and counted as a journal page, when journals are excluded,
  exactly when its \<open>journal?\<close> field is truthy. (The older \<open>src/server.js\<close> computes
  \<open>isJournal\<close> by the same expression.)
\<close>

theorem journal_classification:
  "truthy (page_isJournal page) =
     (case get_prop page (lit ''journal?'') of
        JUndefined \<Rightarrow> False | JNull \<Rightarrow> False | JBool b \<Rightarrow> b | JNum n \<Rightarrow> n \<noteq> 0
      | JStr s \<Rightarrow> s \<noteq> [] | JArr xs \<Rightarrow> True | JObj kvs \<Rightarrow> True) \<and>
   (\<not> invalid_page page \<longrightarrow>
      (process_page False page c w = (Inr (c\<lparr>journalPages := journalPages c + 1\<rparr>), w)
         \<longleftrightarrow> truthy (get_prop page (lit ''journal?''))))"
proof -
  have a: "truthy (page_isJournal page) =
     (case get_prop page (lit ''journal?'') of
        JUndefined \<Rightarrow> False | JNull \<Rightarrow> False | JBool b \<Rightarrow> b | JNum n \<Rightarrow> n \<noteq> 0
      | JStr s \<Rightarrow> s \<noteq> [] | JArr xs \<Rightarrow> True | JObj kvs \<Rightarrow> True)"
    by (cases "get_prop page (lit ''journal?'')") (simp_all add: truthy_page_isJournal)
  have b: "process_page False page c w = (Inr (c\<lparr>journalPages := journalPages c + 1\<rparr>), w)
         \<longleftrightarrow> truthy (get_prop page (lit ''journal?''))" if valid: "\<not> invalid_page page"
  proof (cases "truthy (get_prop page (lit ''journal?''))")
    case True
    with valid have "hidden False page"
      by (simp add: hidden_def truthy_page_isJournal)
    with True show ?thesis by (simp add: process_page_hidden)
  next
    case False
    with valid have "displayed False page"
      by (simp add: displayed_def truthy_page_isJournal)
    then have "process_page False page c w \<noteq> (Inr (c\<lparr>journalPages := journalPages c + 1\<rparr>), w)"
      by (cases c) (auto simp add: process_page_displayed split: sum.splits)
    with False show ?thesis by simp
  qed
  from a b show ?thesis by blast
qed

theorem journal_classification_witness:
  "truthy (page_isJournal (JObj [(lit ''journal?'', JNum 1)])) \<and>
   truthy (page_isJournal (JObj [(lit ''journal?'', JStr (lit ''yes''))])) \<and>
   \<not> truthy (page_isJournal (JObj [(lit ''journal?'', JBool False)])) \<and>
   \<not> truthy (page_isJournal (JObj [(lit ''journal?'', JNum 0)])) \<and>
   \<not> truthy (page_isJournal (JObj [(lit ''journal?'', JStr [])])) \<and>
   \<not> truthy (page_isJournal (JObj [(lit ''journal?'', JNull)])) \<and>
   \<not> truthy (page_isJournal (JObj [(lit ''name'', JStr (lit ''Alpha''))])) \<and>
   process_page False (JObj [(lit ''journal?'', JNum 1)])
       \<lparr>pagesInfo = [], totalPages = 0, journalPages = 0\<rparr> idle =
     (Inr \<lparr>pagesInfo = [], totalPages = 0, journalPages = 1\<rparr>, idle)"
  using journal_classification [of "JObj [(lit ''journal?'', JNum 1)]"
          "\<lparr>pagesInfo = [], totalPages = 0, journalPages = 0\<rparr>" idle]
    journal_classification [of "JObj [(lit ''journal?'', JStr (lit ''yes''))]"]
    journal_classification [of "JObj [(lit ''journal?'', JBool False)]"]
    journal_classification [of "JObj [(lit ''journal?'', JNum 0)]"]
    journal_classification [of "JObj [(lit ''journal?'', JStr [])]"]
    journal_classification [of "JObj [(lit ''journal?'', JNull)]"]
    journal_classification [of "JObj [(lit ''name'', JStr (lit ''Alpha''))]"]
  by (simp add: invalid_page_def lit_def)

end
